theory Spec2Isabelle
  imports Main "HOL-Library.Char_ord" "HOL-Library.List_Lexorder" "HOL-Library.Product_Lexorder"
begin

section \<open>The canteen application of \<^verbatim>\<open>streamlit_app.py\<close>\<close>

text \<open>
  The application keeps four SQLite tables (departments, the menu of each day, staff,
  transactions), reads them through four functions memoised by \<^verbatim>\<open>st.cache_data\<close>, and
  writes them through functions and form handlers that commit and then call
  \<^verbatim>\<open>clear_all_caches()\<close>. The embedding below keeps the source's names. Python's
  \<^verbatim>\<open>int\<close> is \<^typ>\<open>int\<close>, \<^verbatim>\<open>str\<close> is \<^typ>\<open>string\<close> (ASCII text; SQLite's BINARY
  collation compares byte-wise, which is the lexicographic order on \<^typ>\<open>string\<close> used
  here), a table is the list of its rows in insertion order.

  What is taken from the libraries rather than from the source: SQLite leaves foreign keys
  unenforced (the source never issues \<^verbatim>\<open>PRAGMA foreign_keys\<close>), enforces UNIQUE and NOT
  NULL, and executes one statement atomically; \<^verbatim>\<open>st.cache_data\<close> memoises every return
  value, \<^verbatim>\<open>None\<close> included, under the call's arguments until its time-to-live has passed
  or \<^verbatim>\<open>st.cache_data.clear()\<close> runs. A connection either opens or
  \<^verbatim>\<open>get_db_connection\<close> returns \<^verbatim>\<open>None\<close>; a statement on an open connection raises only
  the constraint errors of the schema. One process writes the store, and the calendar date
  does not change while it runs.
\<close>

subsection \<open>Constants (lines 11-14)\<close>

definition ADMIN_BARCODE_ID :: string where
  "ADMIN_BARCODE_ID = ''9999''"

definition ADMIN_DEPARTEMEN_NAME :: string where
  "ADMIN_DEPARTEMEN_NAME = ''ADMIN''"

subsection \<open>Tables (setup_database, lines 44-86)\<close>

text \<open>A row of \<^verbatim>\<open>staf\<close>; the autoincrement \<^verbatim>\<open>id\<close> is never selected and is left out.\<close>

record staf_row =
  barcode_id :: string
  nama :: string
  departemen :: string
  jatah_harian :: int
  jatah_tersisa :: int

text \<open>A row of \<^verbatim>\<open>transaksi\<close>.\<close>

record transaksi_row =
  t_id :: nat
  t_barcode_id :: string
  tanggal :: string
  waktu :: string
  menu :: string
  harga :: int
  staff_nama :: string
  status_scan :: string

text \<open>The dictionary \<^verbatim>\<open>{"menu": ..., "harga": ...}\<close> stored as JSON in \<^verbatim>\<open>menu_harian.menu_data\<close>.\<close>

record menu_dict =
  m_menu :: string
  m_harga :: int

record database =
  tbl_staf :: "staf_row list"
  tbl_transaksi :: "transaksi_row list"
  tbl_departemen :: "string list"
  tbl_menu_harian :: "string \<rightharpoonup> menu_dict"

subsection \<open>The read cache (st.cache_data)\<close>

text \<open>What \<^verbatim>\<open>get_staf_data\<close> returns: a dict, \<^verbatim>\<open>None\<close>, or the DataFrame of all rows.\<close>

datatype staf_result = Staf_dict staf_row | Staf_None | Staf_frame "staf_row list"

text \<open>A row of the joined report of \<^verbatim>\<open>get_transactions_by_date\<close> (line 116).\<close>

record laporan_row =
  l_id :: nat
  l_tanggal :: string
  l_waktu :: string
  l_barcode_id :: string
  l_staff_nama :: string
  l_departemen :: string
  l_menu :: string
  l_harga :: int
  l_status_scan :: string

text \<open>The arguments of \<^verbatim>\<open>get_transactions_by_date\<close>: from_date, to_date, departemen, status_scan.\<close>

type_synonym laporan_key = "string option \<times> string option \<times> string option \<times> string option"

text \<open>An entry is stored with the time it was computed at, in seconds.\<close>

record cache_data =
  c_transactions :: "laporan_key \<rightharpoonup> nat \<times> laporan_row list"
  c_staf :: "string option \<rightharpoonup> nat \<times> staf_result"
  c_departemen :: "(nat \<times> string list) option"
  c_menu :: "string \<rightharpoonup> nat \<times> menu_dict option"

definition empty_cache :: cache_data where
  "empty_cache = \<lparr>c_transactions = Map.empty, c_staf = Map.empty,
                  c_departemen = None, c_menu = Map.empty\<rparr>"

text \<open>
  The process: the store, the cache, whether a connection can be opened, the clock that
  the time-to-live is measured on, and the date and time of day the source reads from
  \<^verbatim>\<open>datetime\<close> (\<^verbatim>\<open>TODAY_DATE\<close>, \<^verbatim>\<open>date.today()\<close>, \<^verbatim>\<open>datetime.now()\<close>).
\<close>

record world =
  db :: database
  cache :: cache_data
  conn_ok :: bool
  clock :: nat
  today :: string
  jam :: string

definition get_db_connection :: "world \<Rightarrow> database option" where
  "get_db_connection w = (if conn_ok w then Some (db w) else None)"

definition clear_all_caches :: "world \<Rightarrow> world" where
  "clear_all_caches w = w\<lparr>cache := empty_cache\<rparr>"

text \<open>An entry answers a call while its age is below the time-to-live.\<close>

definition cache_hit :: "nat \<Rightarrow> nat \<Rightarrow> (nat \<times> 'v) option \<Rightarrow> 'v option" where
  "cache_hit ttl t e =
     (case e of None \<Rightarrow> None
      | Some (t0, v) \<Rightarrow> if t < t0 + ttl then Some v else None)"

subsection \<open>Queries (the bodies of the cached functions, lines 110-214)\<close>

definition between :: "string \<Rightarrow> string option \<Rightarrow> string option \<Rightarrow> bool" where
  "between x lo hi =
     (case (lo, hi) of (Some a, Some b) \<Rightarrow> a \<le> x \<and> x \<le> b | _ \<Rightarrow> False)"

text \<open>\<^verbatim>\<open>if departemen and departemen != "SEMUA DEPARTEMEN"\<close>: the filter applies to a non-empty
  string other than the placeholder.\<close>

definition filter_on :: "string option \<Rightarrow> string \<Rightarrow> string option" where
  "filter_on arg placeholder =
     (case arg of None \<Rightarrow> None
      | Some v \<Rightarrow> if v \<noteq> [] \<and> v \<noteq> placeholder then Some v else None)"

definition join_row :: "transaksi_row \<Rightarrow> staf_row \<Rightarrow> laporan_row" where
  "join_row t s =
     \<lparr>l_id = t_id t, l_tanggal = tanggal t, l_waktu = waktu t, l_barcode_id = t_barcode_id t,
      l_staff_nama = staff_nama t, l_departemen = departemen s, l_menu = menu t,
      l_harga = harga t, l_status_scan = status_scan t\<rparr>"

text \<open>\<^verbatim>\<open>FROM transaksi t JOIN staf s ON t.barcode_id = s.barcode_id\<close>\<close>

definition transaksi_join_staf :: "database \<Rightarrow> laporan_row list" where
  "transaksi_join_staf d =
     concat (map (\<lambda>t. map (join_row t) (filter (\<lambda>s. barcode_id s = t_barcode_id t) (tbl_staf d)))
                 (tbl_transaksi d))"

definition laporan_where :: "laporan_key \<Rightarrow> laporan_row \<Rightarrow> bool" where
  "laporan_where k r =
     (case k of (from_date, to_date, dept, st) \<Rightarrow>
        between (l_tanggal r) from_date to_date
        \<and> (case filter_on dept ''SEMUA DEPARTEMEN'' of None \<Rightarrow> True | Some v \<Rightarrow> l_departemen r = v)
        \<and> (case filter_on st ''SEMUA STATUS'' of None \<Rightarrow> True | Some v \<Rightarrow> l_status_scan r = v))"

text \<open>\<^verbatim>\<open>ORDER BY t.tanggal DESC, t.waktu DESC\<close>; SQL leaves the order of ties open, here it
  is the one of a stable sort.\<close>

definition query_transactions :: "database \<Rightarrow> laporan_key \<Rightarrow> laporan_row list" where
  "query_transactions d k =
     rev (sort_key (\<lambda>r. (l_tanggal r, l_waktu r)) (filter (laporan_where k) (transaksi_join_staf d)))"

text \<open>\<^verbatim>\<open>if barcode_id:\<close> a non-empty barcode selects the first row that has it
  (\<^verbatim>\<open>fetchone\<close>); \<^verbatim>\<open>None\<close> and the empty string select the whole table.\<close>

definition query_staf :: "database \<Rightarrow> string option \<Rightarrow> staf_result" where
  "query_staf d k =
     (case k of
        None \<Rightarrow> Staf_frame (tbl_staf d)
      | Some b \<Rightarrow>
          if b = [] then Staf_frame (tbl_staf d)
          else (case find (\<lambda>s. barcode_id s = b) (tbl_staf d) of
                  Some s \<Rightarrow> Staf_dict s
                | None \<Rightarrow> Staf_None))"

definition query_departemen :: "database \<Rightarrow> string list" where
  "query_departemen d = sort (tbl_departemen d)"

definition query_menu :: "database \<Rightarrow> string \<Rightarrow> menu_dict option" where
  "query_menu d date_str = tbl_menu_harian d date_str"

subsection \<open>The cached functions\<close>

definition get_transactions_by_date :: "laporan_key \<Rightarrow> world \<Rightarrow> laporan_row list \<times> world" where
  "get_transactions_by_date k w =
     (case cache_hit 300 (clock w) (c_transactions (cache w) k) of
        Some v \<Rightarrow> (v, w)
      | None \<Rightarrow>
          let v = (case get_db_connection w of None \<Rightarrow> [] | Some d \<Rightarrow> query_transactions d k)
          in (v, w\<lparr>cache := (cache w)\<lparr>c_transactions := (c_transactions (cache w))(k \<mapsto> (clock w, v))\<rparr>\<rparr>))"

definition get_staf_data :: "string option \<Rightarrow> world \<Rightarrow> staf_result \<times> world" where
  "get_staf_data k w =
     (case cache_hit 600 (clock w) (c_staf (cache w) k) of
        Some v \<Rightarrow> (v, w)
      | None \<Rightarrow>
          let v = (case get_db_connection w of None \<Rightarrow> Staf_None | Some d \<Rightarrow> query_staf d k)
          in (v, w\<lparr>cache := (cache w)\<lparr>c_staf := (c_staf (cache w))(k \<mapsto> (clock w, v))\<rparr>\<rparr>))"

definition get_departemen_data :: "world \<Rightarrow> string list \<times> world" where
  "get_departemen_data w =
     (case cache_hit 3600 (clock w) (c_departemen (cache w)) of
        Some v \<Rightarrow> (v, w)
      | None \<Rightarrow>
          let v = (case get_db_connection w of None \<Rightarrow> [] | Some d \<Rightarrow> query_departemen d)
          in (v, w\<lparr>cache := (cache w)\<lparr>c_departemen := Some (clock w, v)\<rparr>\<rparr>))"

definition get_menu_today :: "string \<Rightarrow> world \<Rightarrow> menu_dict option \<times> world" where
  "get_menu_today date_str w =
     (case cache_hit 60 (clock w) (c_menu (cache w) date_str) of
        Some v \<Rightarrow> (v, w)
      | None \<Rightarrow>
          let v = (case get_db_connection w of None \<Rightarrow> None | Some d \<Rightarrow> query_menu d date_str)
          in (v, w\<lparr>cache := (cache w)\<lparr>c_menu := (c_menu (cache w))(date_str \<mapsto> (clock w, v))\<rparr>\<rparr>))"

subsection \<open>Writers (lines 218-288)\<close>

definition reset_jatah_harian :: "world \<Rightarrow> bool \<times> world" where
  "reset_jatah_harian w =
     (case get_db_connection w of
        None \<Rightarrow> (False, w)
      | Some d \<Rightarrow>
          (True, clear_all_caches
             (w\<lparr>db := d\<lparr>tbl_staf := map (\<lambda>s. s\<lparr>jatah_tersisa := jatah_harian s\<rparr>) (tbl_staf d)\<rparr>\<rparr>)))"

text \<open>\<^verbatim>\<open>id INTEGER PRIMARY KEY AUTOINCREMENT\<close>: one more than the largest id of the table
  (no statement of the source deletes a transaction).\<close>

definition next_id :: "transaksi_row list \<Rightarrow> nat" where
  "next_id ts = Suc (fold max (map t_id ts) 0)"

text \<open>\<^verbatim>\<open>UPDATE staf SET jatah_tersisa = jatah_tersisa - 1 WHERE barcode_id = ? AND jatah_tersisa > 0\<close>\<close>

definition kurangi_jatah :: "string \<Rightarrow> staf_row \<Rightarrow> staf_row" where
  "kurangi_jatah b s =
     (if barcode_id s = b \<and> jatah_tersisa s > 0 then s\<lparr>jatah_tersisa := jatah_tersisa s - 1\<rparr> else s)"

definition record_transaction ::
    "string \<Rightarrow> string \<Rightarrow> string \<Rightarrow> int \<Rightarrow> string \<Rightarrow> world \<Rightarrow> bool \<times> world" where
  "record_transaction b nm mn hg status w =
     (case get_db_connection w of
        None \<Rightarrow> (False, w)
      | Some d \<Rightarrow>
          let t = \<lparr>t_id = next_id (tbl_transaksi d), t_barcode_id = b, tanggal = today w,
                   waktu = jam w, menu = mn, harga = hg, staff_nama = nm, status_scan = status\<rparr>;
              d1 = d\<lparr>tbl_transaksi := tbl_transaksi d @ [t]\<rparr>;
              d2 = (if status = ''SUKSES''
                    then d1\<lparr>tbl_staf := map (kurangi_jatah b) (tbl_staf d1)\<rparr> else d1)
          in (True, clear_all_caches (w\<lparr>db := d2\<rparr>)))"

definition save_menu_today :: "string \<Rightarrow> menu_dict \<Rightarrow> world \<Rightarrow> bool \<times> world" where
  "save_menu_today date_str md w =
     (case get_db_connection w of
        None \<Rightarrow> (False, w)
      | Some d \<Rightarrow>
          (True, clear_all_caches
             (w\<lparr>db := d\<lparr>tbl_menu_harian := (tbl_menu_harian d)(date_str \<mapsto> md)\<rparr>\<rparr>)))"

subsection \<open>CSV import (lines 292-343)\<close>

text \<open>
  A cell of the DataFrame that \<^verbatim>\<open>pd.read_csv\<close> (line 596) hands over: a string (a column of
  text), an integer (a column of integers), or NaN (a blank field). Finite floats,
  infinities and booleans are not modelled.
\<close>

datatype cell = CStr string | CInt int | CNaN

datatype py_error = ValueError

text \<open>The ASCII characters that \<^verbatim>\<open>str.isspace\<close> accepts: 0x09-0x0D, 0x1C-0x1F and the space.\<close>

definition is_space :: "char \<Rightarrow> bool" where
  "is_space c = (c \<in> set [CHR 0x09, CHR 0x0A, CHR 0x0B, CHR 0x0C, CHR 0x0D,
                            CHR 0x1C, CHR 0x1D, CHR 0x1E, CHR 0x1F, CHR 0x20])"

definition strip :: "string \<Rightarrow> string" where
  "strip s = rev (dropWhile is_space (rev (dropWhile is_space s)))"

definition digit_char :: "nat \<Rightarrow> char" where
  "digit_char n = ''0123456789'' ! n"

function show_nat :: "nat \<Rightarrow> string" where
  "show_nat n = (if n < 10 then [digit_char n] else show_nat (n div 10) @ [digit_char (n mod 10)])"
  by pat_completeness auto
termination
  by (relation "measure id") auto

declare show_nat.simps [simp del]

definition show_int :: "int \<Rightarrow> string" where
  "show_int i = (if i < 0 then CHR ''-'' # show_nat (nat (- i)) else show_nat (nat i))"

text \<open>\<^verbatim>\<open>str(x)\<close>\<close>

fun py_str :: "cell \<Rightarrow> string" where
  "py_str (CStr s) = s"
| "py_str (CInt i) = show_int i"
| "py_str CNaN = ''nan''"

definition is_digit :: "char \<Rightarrow> bool" where
  "is_digit c = (c \<in> set ''0123456789'')"

definition digit_val :: "char \<Rightarrow> nat" where
  "digit_val c = of_char c - 48"

text \<open>The digits of a decimal literal: a single underscore may stand between two digits.
  The flag says that the character before was a digit.\<close>

fun parse_digits :: "nat \<Rightarrow> bool \<Rightarrow> string \<Rightarrow> nat option" where
  "parse_digits acc after_digit [] = (if after_digit then Some acc else None)"
| "parse_digits acc after_digit (c # cs) =
     (if is_digit c then parse_digits (10 * acc + digit_val c) True cs
      else if c = CHR ''_'' \<and> after_digit then parse_digits acc False cs
      else None)"

text \<open>\<^verbatim>\<open>int(s)\<close> for a string: surrounding whitespace, a sign, decimal digits.\<close>

definition int_of_str :: "string \<Rightarrow> py_error + int" where
  "int_of_str s =
     (case strip s of
        [] \<Rightarrow> Inl ValueError
      | c # cs \<Rightarrow>
          (case (if c = CHR ''-'' \<or> c = CHR ''+'' then parse_digits 0 False cs
                 else parse_digits 0 False (c # cs)) of
             None \<Rightarrow> Inl ValueError
           | Some n \<Rightarrow> Inr (if c = CHR ''-'' then - int n else int n)))"

text \<open>\<^verbatim>\<open>int(x)\<close>; \<^verbatim>\<open>int(float('nan'))\<close> raises ValueError.\<close>

fun py_int :: "cell \<Rightarrow> py_error + int" where
  "py_int (CStr s) = int_of_str s"
| "py_int (CInt i) = Inr i"
| "py_int CNaN = Inl ValueError"

text \<open>A row of the DataFrame, by column name. A DataFrame has a value in every column of
  every row; NaN stands where the file had none.\<close>

type_synonym csv_row = "(string \<times> cell) list"

record dataframe =
  columns :: "string list"
  rows :: "csv_row list"

definition cell_at :: "csv_row \<Rightarrow> string \<Rightarrow> cell" where
  "cell_at r col = (case map_of r col of Some v \<Rightarrow> v | None \<Rightarrow> CNaN)"

definition required_cols :: "string list" where
  "required_cols = [''barcode_id'', ''nama'', ''departemen'', ''jatah_harian'']"

text \<open>The sqlite3 module refuses a Python integer outside 64 bits with OverflowError.\<close>

definition sqlite_int_ok :: "int \<Rightarrow> bool" where
  "sqlite_int_ok i = (- (2 ^ 63) \<le> i \<and> i < 2 ^ 63)"

text \<open>\<^verbatim>\<open>INSERT OR REPLACE INTO staf\<close>: the row that holds the barcode is deleted, the new row
  is inserted.\<close>

definition insert_or_replace_staf :: "staf_row \<Rightarrow> staf_row list \<Rightarrow> staf_row list" where
  "insert_or_replace_staf r ss = filter (\<lambda>s. barcode_id s \<noteq> barcode_id r) ss @ [r]"

text \<open>\<^verbatim>\<open>INSERT OR IGNORE INTO departemen\<close>\<close>

definition insert_or_ignore_dept :: "string \<Rightarrow> string list \<Rightarrow> string list" where
  "insert_or_ignore_dept dp ds = (if dp \<in> set ds then ds else ds @ [dp])"

text \<open>One turn of the loop of lines 307-338 on the store and the two counters.\<close>

definition import_row :: "csv_row \<Rightarrow> database \<times> nat \<times> nat \<Rightarrow> database \<times> nat \<times> nat" where
  "import_row r acc =
     (case acc of (d, success_count, fail_count) \<Rightarrow>
        let barcode = strip (py_str (cell_at r ''barcode_id''));
            nm = strip (py_str (cell_at r ''nama''));
            dept = strip (py_str (cell_at r ''departemen''))
        in (case py_int (cell_at r ''jatah_harian'') of
              Inl ValueError \<Rightarrow> (d, success_count, fail_count + 1)
            | Inr jatah \<Rightarrow>
                if barcode = [] \<or> nm = [] \<or> dept = [] \<or> jatah \<le> 0
                then (d, success_count, fail_count + 1)
                else if \<not> sqlite_int_ok jatah
                then (d, success_count, fail_count + 1)
                else (d\<lparr>tbl_staf := insert_or_replace_staf
                                       \<lparr>barcode_id = barcode, nama = nm, departemen = dept,
                                        jatah_harian = jatah, jatah_tersisa = jatah\<rparr> (tbl_staf d),
                        tbl_departemen := insert_or_ignore_dept dept (tbl_departemen d)\<rparr>,
                      success_count + 1, fail_count)))"

definition import_staf_from_csv :: "dataframe \<Rightarrow> world \<Rightarrow> (nat \<times> nat) \<times> world" where
  "import_staf_from_csv df w =
     (case get_db_connection w of
        None \<Rightarrow> ((0, 0), w)
      | Some d \<Rightarrow>
          if \<not> list_all (\<lambda>col. col \<in> set (columns df)) required_cols then ((0, 0), w)
          else (case fold import_row (rows df) (d, 0, 0) of
                  (d', success_count, fail_count) \<Rightarrow>
                    ((success_count, fail_count), clear_all_caches (w\<lparr>db := d'\<rparr>))))"

subsection \<open>Form handlers of the admin pages (lines 486-506, 539-569, 630-637, 648-665)\<close>

text \<open>Each returns whether it committed. A missing connection makes \<^verbatim>\<open>conn.cursor()\<close>
  raise, a violated constraint makes \<^verbatim>\<open>execute\<close> raise; both are caught and nothing is
  written. A selectbox over an empty list of departments yields \<^verbatim>\<open>None\<close>.\<close>

definition tambah_staf :: "string \<Rightarrow> string \<Rightarrow> string option \<Rightarrow> int \<Rightarrow> world \<Rightarrow> bool \<times> world" where
  "tambah_staf new_barcode_id new_nama new_dept new_jatah w =
     (if new_barcode_id = [] \<or> new_nama = [] then (False, w)
      else (case get_db_connection w of
              None \<Rightarrow> (False, w)
            | Some d \<Rightarrow>
                (case new_dept of
                   None \<Rightarrow> (False, w)
                 | Some dp \<Rightarrow>
                     if new_barcode_id \<in> set (map barcode_id (tbl_staf d)) then (False, w)
                     else (True, clear_all_caches
                             (w\<lparr>db := d\<lparr>tbl_staf := tbl_staf d @
                                 [\<lparr>barcode_id = new_barcode_id, nama = new_nama, departemen = dp,
                                   jatah_harian = new_jatah, jatah_tersisa = new_jatah\<rparr>]\<rparr>\<rparr>)))))"

text \<open>The edit form and the delete button are drawn only \<^verbatim>\<open>if staf_data:\<close>, for the
  record that \<^verbatim>\<open>get_staf_data(barcode_to_edit)\<close> returned.\<close>

definition edit_staf :: "string \<Rightarrow> string \<Rightarrow> string option \<Rightarrow> int \<Rightarrow> world \<Rightarrow> bool \<times> world" where
  "edit_staf barcode_to_edit edit_nama edit_dept edit_jatah w =
     (case get_staf_data (Some barcode_to_edit) w of
        (Staf_dict staf_data, w1) \<Rightarrow>
          (case get_db_connection w1 of
             None \<Rightarrow> (False, w1)
           | Some d \<Rightarrow>
               (case edit_dept of
                  None \<Rightarrow>
                    if barcode_to_edit \<in> set (map barcode_id (tbl_staf d)) then (False, w1)
                    else (True, clear_all_caches w1)
                | Some dp \<Rightarrow>
                    (True, clear_all_caches
                       (w1\<lparr>db := d\<lparr>tbl_staf :=
                          map (\<lambda>s. if barcode_id s = barcode_to_edit
                                    then s\<lparr>nama := edit_nama, departemen := dp,
                                           jatah_harian := edit_jatah, jatah_tersisa := edit_jatah\<rparr>
                                    else s) (tbl_staf d)\<rparr>\<rparr>))))
      | (_, w1) \<Rightarrow> (False, w1))"

definition hapus_staf :: "string \<Rightarrow> world \<Rightarrow> bool \<times> world" where
  "hapus_staf barcode_to_edit w =
     (case get_staf_data (Some barcode_to_edit) w of
        (Staf_dict staf_data, w1) \<Rightarrow>
          (case get_db_connection w1 of
             None \<Rightarrow> (False, w1)
           | Some d \<Rightarrow>
               (True, clear_all_caches
                  (w1\<lparr>db := d\<lparr>tbl_staf := filter (\<lambda>s. barcode_id s \<noteq> barcode_to_edit) (tbl_staf d)\<rparr>\<rparr>)))
      | (_, w1) \<Rightarrow> (False, w1))"

definition simpan_menu :: "string \<Rightarrow> int \<Rightarrow> world \<Rightarrow> bool \<times> world" where
  "simpan_menu menu_input harga_input w =
     (if menu_input = [] \<or> harga_input \<le> 0 then (False, w)
      else save_menu_today (today w) \<lparr>m_menu = menu_input, m_harga = harga_input\<rparr> w)"

definition tambah_departemen :: "string \<Rightarrow> world \<Rightarrow> bool \<times> world" where
  "tambah_departemen new_dept_name w =
     (if new_dept_name = [] then (False, w)
      else (case get_db_connection w of
              None \<Rightarrow> (False, w)
            | Some d \<Rightarrow>
                if new_dept_name \<in> set (tbl_departemen d) then (False, w)
                else (True, clear_all_caches
                        (w\<lparr>db := d\<lparr>tbl_departemen := tbl_departemen d @ [new_dept_name]\<rparr>\<rparr>))))"

subsection \<open>The scan page (lines 671-727)\<close>

text \<open>What the page shows: the scan is suspended, the form waits, one of the three
  refusals, the record read back after a success, or an uncaught exception.\<close>

datatype layar =
    Ditangguhkan
  | Menunggu
  | Gagal_tidak_terdaftar
  | Gagal_admin
  | Gagal_jatah_habis string
  | Sukses staf_row
  | Galat

definition scan_page :: "bool \<Rightarrow> string \<Rightarrow> world \<Rightarrow> layar \<times> world" where
  "scan_page submitted barcode_input w =
     (case get_menu_today (today w) w of
        (None, w1) \<Rightarrow> (Ditangguhkan, w1)
      | (Some menu_today, w1) \<Rightarrow>
          if submitted \<and> barcode_input \<noteq> [] then
            (case get_staf_data (Some barcode_input) w1 of
               (Staf_None, w2) \<Rightarrow>
                 (Gagal_tidak_terdaftar,
                  snd (record_transaction barcode_input ''N/A'' (m_menu menu_today)
                         (m_harga menu_today) ''GAGAL'' w2))
             | (Staf_dict staf, w2) \<Rightarrow>
                 if barcode_id staf = ADMIN_BARCODE_ID then
                   (Gagal_admin,
                    snd (record_transaction barcode_input (nama staf) (m_menu menu_today)
                           (m_harga menu_today) ''GAGAL'' w2))
                 else if jatah_tersisa staf \<le> 0 then
                   (Gagal_jatah_habis (nama staf),
                    snd (record_transaction barcode_input (nama staf) (m_menu menu_today)
                           (m_harga menu_today) ''GAGAL'' w2))
                 else
                   (case get_staf_data (Some barcode_input)
                           (snd (record_transaction barcode_input (nama staf) (m_menu menu_today)
                                   (m_harga menu_today) ''SUKSES'' w2)) of
                      (Staf_dict staf_after_scan, w3) \<Rightarrow> (Sukses staf_after_scan, w3)
                    | (_, w3) \<Rightarrow> (Galat, w3))
             | (Staf_frame df, w2) \<Rightarrow> (Galat, w2))
          else (Menunggu, w1))"

subsection \<open>The process from its start\<close>

text \<open>\<^verbatim>\<open>setup_database\<close> (lines 88-99) on the tables it has created.\<close>

definition setup_database :: "database \<Rightarrow> database" where
  "setup_database d =
     (let d1 = (if ADMIN_BARCODE_ID \<in> set (map barcode_id (tbl_staf d)) then d
                else d\<lparr>tbl_staf := tbl_staf d @
                         [\<lparr>barcode_id = ADMIN_BARCODE_ID, nama = ''Administrator'',
                           departemen = ADMIN_DEPARTEMEN_NAME, jatah_harian = 999,
                           jatah_tersisa = 999\<rparr>]\<rparr>)
      in if ADMIN_DEPARTEMEN_NAME \<in> set (tbl_departemen d1) then d1
         else d1\<lparr>tbl_departemen := tbl_departemen d1 @ [ADMIN_DEPARTEMEN_NAME]\<rparr>)"

definition empty_database :: database where
  "empty_database = \<lparr>tbl_staf = [], tbl_transaksi = [], tbl_departemen = [],
                      tbl_menu_harian = Map.empty\<rparr>"

definition boot :: "string \<Rightarrow> string \<Rightarrow> world" where
  "boot hari pukul =
     \<lparr>db = setup_database empty_database, cache = empty_cache, conn_ok = True, clock = 0,
      today = hari, jam = pukul\<rparr>"

text \<open>
  What can happen next: a scan, a handler of the admin pages, a cached read drawn by a
  page, or time passing. The number inputs of the staff forms are declared with
  \<^verbatim>\<open>min_value=1\<close>, which \<^verbatim>\<open>ui_ok\<close> records.
\<close>

datatype event =
    Scan bool string
  | Reset
  | Tambah_staf string string "string option" int
  | Edit_staf string string "string option" int
  | Hapus_staf string
  | Simpan_menu string int
  | Tambah_departemen string
  | Import_csv dataframe
  | Baca_transaksi laporan_key
  | Baca_staf "string option"
  | Baca_departemen
  | Baca_menu
  | Waktu nat string

fun ui_ok :: "event \<Rightarrow> bool" where
  "ui_ok (Tambah_staf b nm dp j) = (1 \<le> j)"
| "ui_ok (Edit_staf b nm dp j) = (1 \<le> j)"
| "ui_ok e = True"

fun exec :: "event \<Rightarrow> world \<Rightarrow> world" where
  "exec (Scan submitted barcode_input) w = snd (scan_page submitted barcode_input w)"
| "exec Reset w = snd (reset_jatah_harian w)"
| "exec (Tambah_staf b nm dp j) w = snd (tambah_staf b nm dp j w)"
| "exec (Edit_staf b nm dp j) w = snd (edit_staf b nm dp j w)"
| "exec (Hapus_staf b) w = snd (hapus_staf b w)"
| "exec (Simpan_menu mn hg) w = snd (simpan_menu mn hg w)"
| "exec (Tambah_departemen dp) w = snd (tambah_departemen dp w)"
| "exec (Import_csv df) w = snd (import_staf_from_csv df w)"
| "exec (Baca_transaksi k) w = snd (get_transactions_by_date k w)"
| "exec (Baca_staf k) w = snd (get_staf_data k w)"
| "exec Baca_departemen w = snd (get_departemen_data w)"
| "exec Baca_menu w = snd (get_menu_today (today w) w)"
| "exec (Waktu dt pukul) w = w\<lparr>clock := clock w + dt, jam := pukul\<rparr>"

definition run :: "event list \<Rightarrow> world \<Rightarrow> world" where
  "run es w = fold exec es w"

subsection \<open>Consistent states\<close>

text \<open>
  The cache is coherent when every entry it holds, expired or not, is the answer of its
  query on the store as it is now. The staff table satisfies its schema and the checks of
  the forms when barcodes are unique (UNIQUE) and non-empty, the remaining quota is not
  negative and the daily quota is at least one.
\<close>

definition coherent :: "world \<Rightarrow> bool" where
  "coherent w \<longleftrightarrow>
     (\<forall>k t v. c_transactions (cache w) k = Some (t, v) \<longrightarrow> v = query_transactions (db w) k)
   \<and> (\<forall>k t v. c_staf (cache w) k = Some (t, v) \<longrightarrow> v = query_staf (db w) k)
   \<and> (\<forall>t v. c_departemen (cache w) = Some (t, v) \<longrightarrow> v = query_departemen (db w))
   \<and> (\<forall>k t v. c_menu (cache w) k = Some (t, v) \<longrightarrow> v = query_menu (db w) k)"

definition staf_ok :: "staf_row list \<Rightarrow> bool" where
  "staf_ok ss \<longleftrightarrow>
     distinct (map barcode_id ss)
   \<and> list_all (\<lambda>s. barcode_id s \<noteq> [] \<and> 0 \<le> jatah_tersisa s \<and> 1 \<le> jatah_harian s) ss"

definition schema_ok :: "database \<Rightarrow> bool" where
  "schema_ok d \<longleftrightarrow> staf_ok (tbl_staf d)"

definition consistent :: "world \<Rightarrow> bool" where
  "consistent w \<longleftrightarrow> conn_ok w \<and> coherent w \<and> schema_ok (db w)"



text \<open>The admin record is never redeemed against: its remaining quota is its daily quota.\<close>

definition admin_penuh :: "staf_row list \<Rightarrow> bool" where
  "admin_penuh ss \<longleftrightarrow>
     list_all (\<lambda>s. barcode_id s = ADMIN_BARCODE_ID \<longrightarrow> jatah_tersisa s = jatah_harian s) ss"

subsection \<open>The scenario of the examples\<close>

text \<open>
  The process starts on 2026-11-04 at noon; the admin adds the staff record 1001 (Budi,
  quota 1) and saves the menu (Nasi Goreng, 15000). The abbreviations below name the rows
  and the event sequences that the examples evaluate.
\<close>

abbreviation administrator :: staf_row where
  "administrator \<equiv> \<lparr>barcode_id = ''9999'', nama = ''Administrator'', departemen = ''ADMIN'',
                      jatah_harian = 999, jatah_tersisa = 999\<rparr>"

abbreviation budi :: "int \<Rightarrow> staf_row" where
  "budi sisa \<equiv> \<lparr>barcode_id = ''1001'', nama = ''Budi'', departemen = ''Produksi'',
                 jatah_harian = 1, jatah_tersisa = sisa\<rparr>"

abbreviation nasi_goreng :: menu_dict where
  "nasi_goreng \<equiv> \<lparr>m_menu = ''Nasi Goreng'', m_harga = 15000\<rparr>"

abbreviation mulai :: world where
  "mulai \<equiv> boot ''2026-11-04'' ''12:00:00''"

abbreviation contoh_awal :: "event list" where
  "contoh_awal \<equiv>
     [Tambah_staf ''1001'' ''Budi'' (Some ''Produksi'') 1, Simpan_menu ''Nasi Goreng'' 15000]"

abbreviation contoh_habis :: "event list" where
  "contoh_habis \<equiv>
     [Tambah_staf ''1001'' ''Budi'' (Some ''Produksi'') 1, Simpan_menu ''Nasi Goreng'' 15000,
      Scan True ''1001'']"


abbreviation contoh_hapus :: "event list" where
  "contoh_hapus \<equiv>
     [Tambah_staf ''1001'' ''Budi'' (Some ''Produksi'') 1,
      Tambah_staf ''2002'' ''Siti'' (Some ''HRD'') 1,
      Simpan_menu ''Nasi Goreng'' 15000,
      Scan True ''77'', Scan True ''2002'', Scan True ''1001'', Hapus_staf ''2002'']"

abbreviation hari_ini :: laporan_key where
  "hari_ini \<equiv> (Some ''2026-11-04'', Some ''2026-11-04'',
                Some ''SEMUA DEPARTEMEN'', Some ''SEMUA STATUS'')"

abbreviation transaksi_contoh :: "nat \<Rightarrow> string \<Rightarrow> string \<Rightarrow> string \<Rightarrow> transaksi_row" where
  "transaksi_contoh n b nm st \<equiv>
     \<lparr>t_id = n, t_barcode_id = b, tanggal = ''2026-11-04'', waktu = ''12:00:00'',
      menu = ''Nasi Goreng'', harga = 15000, staff_nama = nm, status_scan = st\<rparr>"

abbreviation csv_satu_baris :: "cell \<Rightarrow> dataframe" where
  "csv_satu_baris nama_cell \<equiv>
     \<lparr>columns = [''barcode_id'', ''nama'', ''departemen'', ''jatah_harian''],
      rows = [[(''barcode_id'', CInt 1001), (''nama'', nama_cell),
               (''departemen'', CStr ''Produksi''), (''jatah_harian'', CInt 1)]]\<rparr>"

section \<open>Every reachable state is consistent\<close>

lemma coherent_empty: "cache w = empty_cache \<Longrightarrow> coherent w"
  by (simp add: coherent_def empty_cache_def)

lemma coherent_clear: "coherent (clear_all_caches w)"
  by (simp add: coherent_empty clear_all_caches_def)

lemma cache_hit_Some: "cache_hit ttl t e = Some v \<Longrightarrow> \<exists>t0. e = Some (t0, v)"
  by (auto simp: cache_hit_def split: option.splits if_splits)

lemma get_staf_data_frame:
  "db (snd (get_staf_data k w)) = db w" "conn_ok (snd (get_staf_data k w)) = conn_ok w"
  "clock (snd (get_staf_data k w)) = clock w" "today (snd (get_staf_data k w)) = today w"
  "jam (snd (get_staf_data k w)) = jam w"
  by (simp_all add: get_staf_data_def Let_def split: option.splits)

lemma get_staf_data_coherent:
  assumes "conn_ok w" "coherent w"
  shows "fst (get_staf_data k w) = query_staf (db w) k" "coherent (snd (get_staf_data k w))"
  using assms
  by (auto simp: get_staf_data_def Let_def get_db_connection_def coherent_def
           dest!: cache_hit_Some split: option.splits)

lemma get_menu_today_frame:
  "db (snd (get_menu_today k w)) = db w" "conn_ok (snd (get_menu_today k w)) = conn_ok w"
  "clock (snd (get_menu_today k w)) = clock w" "today (snd (get_menu_today k w)) = today w"
  "jam (snd (get_menu_today k w)) = jam w"
  by (simp_all add: get_menu_today_def Let_def split: option.splits)

lemma get_menu_today_coherent:
  assumes "conn_ok w" "coherent w"
  shows "fst (get_menu_today k w) = query_menu (db w) k" "coherent (snd (get_menu_today k w))"
  using assms
  by (auto simp: get_menu_today_def Let_def get_db_connection_def coherent_def
           dest!: cache_hit_Some split: option.splits)

lemma get_departemen_data_frame:
  "db (snd (get_departemen_data w)) = db w" "conn_ok (snd (get_departemen_data w)) = conn_ok w"
  "clock (snd (get_departemen_data w)) = clock w" "today (snd (get_departemen_data w)) = today w"
  "jam (snd (get_departemen_data w)) = jam w"
  by (simp_all add: get_departemen_data_def Let_def split: option.splits)

lemma get_departemen_data_coherent:
  assumes "conn_ok w" "coherent w"
  shows "fst (get_departemen_data w) = query_departemen (db w)" "coherent (snd (get_departemen_data w))"
  using assms
  by (auto simp: get_departemen_data_def Let_def get_db_connection_def coherent_def
           dest!: cache_hit_Some split: option.splits)

lemma get_transactions_by_date_frame:
  "db (snd (get_transactions_by_date k w)) = db w" "conn_ok (snd (get_transactions_by_date k w)) = conn_ok w"
  "clock (snd (get_transactions_by_date k w)) = clock w" "today (snd (get_transactions_by_date k w)) = today w"
  "jam (snd (get_transactions_by_date k w)) = jam w"
  by (simp_all add: get_transactions_by_date_def Let_def split: option.splits)

lemma get_transactions_by_date_coherent:
  assumes "conn_ok w" "coherent w"
  shows "fst (get_transactions_by_date k w) = query_transactions (db w) k"
        "coherent (snd (get_transactions_by_date k w))"
  using assms
  by (auto simp: get_transactions_by_date_def Let_def get_db_connection_def coherent_def
           simp del: split_paired_All
           dest!: cache_hit_Some split: option.splits)

lemma staf_ok_map:
  assumes "staf_ok ss"
    and "\<And>s. barcode_id (f s) = barcode_id s"
    and "\<And>s. 0 \<le> jatah_tersisa s \<Longrightarrow> 1 \<le> jatah_harian s \<Longrightarrow>
              0 \<le> jatah_tersisa (f s) \<and> 1 \<le> jatah_harian (f s)"
  shows "staf_ok (map f ss)"
proof -
  have "barcode_id \<circ> f = barcode_id"
    by (rule ext) (simp add: assms(2))
  then show ?thesis
    using assms by (auto simp: staf_ok_def list_all_iff)
qed

lemma staf_ok_filter: "staf_ok ss \<Longrightarrow> staf_ok (filter P ss)"
  by (auto simp: staf_ok_def list_all_iff distinct_map_filter)

lemma staf_ok_append:
  assumes "staf_ok ss" "barcode_id r \<notin> set (map barcode_id ss)"
    "barcode_id r \<noteq> []" "0 \<le> jatah_tersisa r" "1 \<le> jatah_harian r"
  shows "staf_ok (ss @ [r])"
  using assms by (auto simp: staf_ok_def list_all_iff)

lemma staf_ok_replace:
  assumes "staf_ok ss" "barcode_id r \<noteq> []" "0 \<le> jatah_tersisa r" "1 \<le> jatah_harian r"
  shows "staf_ok (insert_or_replace_staf r ss)"
  using assms
  by (auto simp: staf_ok_def list_all_iff insert_or_replace_staf_def distinct_map_filter)

lemma clear_all_caches_simps [simp]:
  "db (clear_all_caches w) = db w" "conn_ok (clear_all_caches w) = conn_ok w"
  "clock (clear_all_caches w) = clock w" "today (clear_all_caches w) = today w"
  "jam (clear_all_caches w) = jam w" "cache (clear_all_caches w) = empty_cache"
  "coherent (clear_all_caches w)"
  by (simp_all add: coherent_clear) (simp_all add: clear_all_caches_def)

lemma reset_consistent: "consistent w \<Longrightarrow> consistent (snd (reset_jatah_harian w))"
  by (auto simp: reset_jatah_harian_def get_db_connection_def consistent_def
           simp: schema_ok_def intro!: staf_ok_map)

lemma kurangi_jatah_barcode [simp]: "barcode_id (kurangi_jatah b s) = barcode_id s"
  by (simp add: kurangi_jatah_def)

lemma record_transaction_consistent:
  "consistent w \<Longrightarrow> consistent (snd (record_transaction b nm mn hg st w))"
  by (auto simp: record_transaction_def get_db_connection_def consistent_def Let_def kurangi_jatah_def
           simp: schema_ok_def intro!: staf_ok_map)

lemma save_menu_today_consistent:
  "consistent w \<Longrightarrow> consistent (snd (save_menu_today dt md w))"
  by (auto simp: save_menu_today_def get_db_connection_def consistent_def
           simp: schema_ok_def)

lemma simpan_menu_consistent:
  "consistent w \<Longrightarrow> consistent (snd (simpan_menu mn hg w))"
  by (simp add: simpan_menu_def save_menu_today_consistent)

lemma tambah_departemen_consistent:
  "consistent w \<Longrightarrow> consistent (snd (tambah_departemen dp w))"
  by (auto simp: tambah_departemen_def get_db_connection_def consistent_def
           simp: schema_ok_def)

lemma tambah_staf_consistent:
  "1 \<le> j \<Longrightarrow> consistent w \<Longrightarrow> consistent (snd (tambah_staf b nm dp j w))"
  by (auto simp: tambah_staf_def get_db_connection_def consistent_def split: option.splits
           simp: schema_ok_def intro!: staf_ok_append)

lemma get_staf_data_consistent:
  "consistent w \<Longrightarrow> consistent (snd (get_staf_data k w))"
  by (simp add: consistent_def get_staf_data_frame get_staf_data_coherent)

lemma get_menu_today_consistent:
  "consistent w \<Longrightarrow> consistent (snd (get_menu_today k w))"
  by (simp add: consistent_def get_menu_today_frame get_menu_today_coherent)

lemma get_departemen_data_consistent:
  "consistent w \<Longrightarrow> consistent (snd (get_departemen_data w))"
  by (simp add: consistent_def get_departemen_data_frame get_departemen_data_coherent)

lemma get_transactions_by_date_consistent:
  "consistent w \<Longrightarrow> consistent (snd (get_transactions_by_date k w))"
  by (simp add: consistent_def get_transactions_by_date_frame get_transactions_by_date_coherent)

lemma edit_staf_consistent:
  assumes "1 \<le> j" "consistent w"
  shows "consistent (snd (edit_staf b nm dp j w))"
proof -
  obtain r w1 where g: "get_staf_data (Some b) w = (r, w1)"
    by (cases "get_staf_data (Some b) w")
  have c1: "consistent w1"
    using get_staf_data_consistent [OF assms(2), of "Some b"] g by simp
  then show ?thesis
    using assms(1) g
    by (auto simp: edit_staf_def get_db_connection_def consistent_def
             split: staf_result.splits option.splits
             simp: schema_ok_def intro!: staf_ok_map)
qed

lemma hapus_staf_consistent:
  assumes "consistent w"
  shows "consistent (snd (hapus_staf b w))"
proof -
  obtain r w1 where g: "get_staf_data (Some b) w = (r, w1)"
    by (cases "get_staf_data (Some b) w")
  have c1: "consistent w1"
    using get_staf_data_consistent [OF assms, of "Some b"] g by simp
  then show ?thesis
    using g
    by (auto simp: hapus_staf_def get_db_connection_def consistent_def
             split: staf_result.splits option.splits
             simp: schema_ok_def intro!: staf_ok_filter)
qed

lemma import_row_staf_ok:
  "staf_ok (tbl_staf (fst acc)) \<Longrightarrow> staf_ok (tbl_staf (fst (import_row r acc)))"
  by (cases acc)
     (auto simp: import_row_def Let_def split: sum.splits py_error.splits intro!: staf_ok_replace)

lemma fold_import_row_staf_ok:
  "staf_ok (tbl_staf (fst acc)) \<Longrightarrow> staf_ok (tbl_staf (fst (fold import_row rs acc)))"
  by (induction rs arbitrary: acc) (simp_all add: import_row_staf_ok)

lemma import_staf_from_csv_consistent:
  assumes "consistent w"
  shows "consistent (snd (import_staf_from_csv df w))"
proof -
  have "staf_ok (tbl_staf (fst (fold import_row (rows df) (db w, 0, 0))))"
    using assms by (intro fold_import_row_staf_ok) (simp add: consistent_def schema_ok_def)
  then show ?thesis
    using assms
    by (auto simp: import_staf_from_csv_def get_db_connection_def consistent_def schema_ok_def
             split: prod.splits)
qed

lemma scan_page_consistent:
  assumes "consistent w"
  shows "consistent (snd (scan_page sub b w))"
proof -
  obtain mt w1 where m: "get_menu_today (today w) w = (mt, w1)"
    by (cases "get_menu_today (today w) w")
  have c1: "consistent w1"
    using get_menu_today_consistent [OF assms, of "today w"] m by simp
  obtain r w2 where g: "get_staf_data (Some b) w1 = (r, w2)"
    by (cases "get_staf_data (Some b) w1")
  have c2: "consistent w2"
    using get_staf_data_consistent [OF c1, of "Some b"] g by simp
  have rec: "consistent (snd (record_transaction b nm mn hg st w2))" for nm mn hg st
    by (rule record_transaction_consistent [OF c2])
  have after: "consistent w3"
    if "get_staf_data (Some b) (snd (record_transaction b nm mn hg st w2)) = (x, w3)"
    for nm mn hg st x w3
    using get_staf_data_consistent [OF rec, of "Some b" nm mn hg st] that by simp
  show ?thesis
    using m g c1 c2 rec after
    by (auto simp: scan_page_def split: option.splits staf_result.splits prod.splits)
qed

lemma exec_consistent: "ui_ok e \<Longrightarrow> consistent w \<Longrightarrow> consistent (exec e w)"
proof (cases e)
  case (Waktu dt pukul)
  assume "consistent w"
  then show ?thesis
    by (simp add: Waktu consistent_def coherent_def)
qed (simp_all add: scan_page_consistent reset_consistent tambah_staf_consistent
       edit_staf_consistent hapus_staf_consistent simpan_menu_consistent
       tambah_departemen_consistent import_staf_from_csv_consistent
       get_transactions_by_date_consistent get_staf_data_consistent
       get_departemen_data_consistent get_menu_today_consistent)

lemma run_consistent: "list_all ui_ok es \<Longrightarrow> consistent w \<Longrightarrow> consistent (run es w)"
  unfolding run_def
  by (induction es arbitrary: w) (simp_all add: exec_consistent)

lemma boot_consistent: "consistent (boot hari pukul)"
  by (simp add: boot_def consistent_def coherent_empty schema_ok_def staf_ok_def
        setup_database_def empty_database_def ADMIN_BARCODE_ID_def)

lemma reachable_consistent:
  "list_all ui_ok es \<Longrightarrow> consistent (run es (boot hari pukul))"
  by (simp add: run_consistent boot_consistent)

section \<open>The scan page\<close>

lemma find_distinct_key:
  "distinct (map f xs) \<Longrightarrow> s \<in> set xs \<Longrightarrow> find (\<lambda>x. f x = f s) xs = Some s"
  by (induction xs) (auto simp: image_iff)

lemma find_none_key:
  "b \<notin> set (map f xs) \<Longrightarrow> find (\<lambda>x. f x = b) xs = None"
  by (induction xs) auto

lemma find_kurangi_jatah:
  "find (\<lambda>x. barcode_id x = b) (map (kurangi_jatah b) xs)
     = map_option (kurangi_jatah b) (find (\<lambda>x. barcode_id x = b) xs)"
  by (induction xs) (auto simp: kurangi_jatah_def)

lemma map_kurangi_jatah_distinct:
  assumes "distinct (map barcode_id xs)" "s \<in> set xs" "0 < jatah_tersisa s"
  shows "map (kurangi_jatah (barcode_id s)) xs
     = map (\<lambda>x. if x = s then s\<lparr>jatah_tersisa := jatah_tersisa s - 1\<rparr> else x) xs"
proof (rule map_cong [OF refl])
  fix x assume "x \<in> set xs"
  moreover have "inj_on barcode_id (set xs)"
    using assms(1) by (simp add: distinct_map)
  ultimately have "barcode_id x = barcode_id s \<longleftrightarrow> x = s"
    using assms(2) by (auto dest: inj_onD)
  then show "kurangi_jatah (barcode_id s) x
      = (if x = s then s\<lparr>jatah_tersisa := jatah_tersisa s - 1\<rparr> else x)"
    using assms(3) by (auto simp: kurangi_jatah_def)
qed

text \<open>The two cached reads that open a scan, in a consistent state.\<close>

lemma scan_reads:
  fixes b :: string
  assumes "conn_ok w" "coherent w"
  obtains w1 w2 where
    "get_menu_today (today w) w = (tbl_menu_harian (db w) (today w), w1)"
    "get_staf_data (Some b) w1 = (query_staf (db w) (Some b), w2)"
    "db w1 = db w" "db w2 = db w" "conn_ok w2" "today w2 = today w" "jam w2 = jam w"
proof -
  define w1 where "w1 = snd (get_menu_today (today w) w)"
  define w2 where "w2 = snd (get_staf_data (Some b) w1)"
  note c = assms
  have c1: "conn_ok w1" "coherent w1" "db w1 = db w" "today w1 = today w" "jam w1 = jam w"
    using c by (simp_all add: w1_def get_menu_today_frame get_menu_today_coherent)
  have "get_menu_today (today w) w = (tbl_menu_harian (db w) (today w), w1)"
    using get_menu_today_coherent(1) [OF c, of "today w"]
    by (simp add: w1_def query_menu_def prod_eq_iff)
  moreover have "get_staf_data (Some b) w1 = (query_staf (db w) (Some b), w2)"
    using get_staf_data_coherent(1) [OF c1(1,2), of "Some b"] c1(3)
    by (simp add: w2_def prod_eq_iff)
  moreover have "db w2 = db w" "conn_ok w2" "today w2 = today w" "jam w2 = jam w"
    using c1 by (simp_all add: w2_def get_staf_data_frame)
  ultimately show ?thesis
    using that c1(3) by blast
qed

lemma record_transaction_db:
  "conn_ok w \<Longrightarrow>
   db (snd (record_transaction b nm mn hg st w))
     = (db w)\<lparr>tbl_transaksi := tbl_transaksi (db w) @
                 [\<lparr>t_id = next_id (tbl_transaksi (db w)), t_barcode_id = b, tanggal = today w,
                   waktu = jam w, menu = mn, harga = hg, staff_nama = nm, status_scan = st\<rparr>],
               tbl_staf := (if st = ''SUKSES'' then map (kurangi_jatah b) (tbl_staf (db w))
                            else tbl_staf (db w))\<rparr>"
  by (simp add: record_transaction_def get_db_connection_def Let_def)

lemma record_transaction_cleared:
  "conn_ok w \<Longrightarrow> cache (snd (record_transaction b nm mn hg st w)) = empty_cache
     \<and> conn_ok (snd (record_transaction b nm mn hg st w))
     \<and> fst (record_transaction b nm mn hg st w)"
  by (simp add: record_transaction_def get_db_connection_def Let_def)

lemma get_staf_data_fresh:
  "cache w = empty_cache \<Longrightarrow> conn_ok w \<Longrightarrow>
   get_staf_data k w = (query_staf (db w) k,
      w\<lparr>cache := empty_cache\<lparr>c_staf := [k \<mapsto> (clock w, query_staf (db w) k)]\<rparr>\<rparr>)"
  by (simp add: get_staf_data_def empty_cache_def cache_hit_def get_db_connection_def Let_def)

lemma record_transaction_gagal_db:
  "conn_ok w \<Longrightarrow>
   db (snd (record_transaction b nm mn hg ''GAGAL'' w))
     = (db w)\<lparr>tbl_transaksi := tbl_transaksi (db w) @
                 [\<lparr>t_id = next_id (tbl_transaksi (db w)), t_barcode_id = b, tanggal = today w,
                   waktu = jam w, menu = mn, harga = hg, staff_nama = nm,
                   status_scan = ''GAGAL''\<rparr>]\<rparr>"
  by (simp add: record_transaction_db)

lemma find_key_barcode:
  "find (\<lambda>x. barcode_id x = b) xs = Some s \<Longrightarrow> barcode_id s = b"
  by (induction xs) (auto split: if_splits)

lemma get_staf_data_db: "get_staf_data k w = (x, w') \<Longrightarrow> db w' = db w"
  using get_staf_data_frame(1) [of k w] by simp

text \<open>A scan leaves the staff table alone or decrements under a barcode that is not the
  admin's.\<close>

lemma scan_page_staf:
  assumes "conn_ok w" "coherent w"
  shows "tbl_staf (db (snd (scan_page sub b w))) = tbl_staf (db w)
       \<or> (b \<noteq> ADMIN_BARCODE_ID
          \<and> tbl_staf (db (snd (scan_page sub b w))) = map (kurangi_jatah b) (tbl_staf (db w)))"
proof -
  obtain w1 w2 where r:
    "get_menu_today (today w) w = (tbl_menu_harian (db w) (today w), w1)"
    "get_staf_data (Some b) w1 = (query_staf (db w) (Some b), w2)"
    "db w1 = db w" "db w2 = db w" "conn_ok w2" "today w2 = today w" "jam w2 = jam w"
    using assms by (auto intro: scan_reads [of w])
  have key: "barcode_id s = b" if "query_staf (db w) (Some b) = Staf_dict s" for s
    using that by (auto simp: query_staf_def split: if_splits option.splits dest: find_key_barcode)
  show ?thesis
    using key
    by (auto simp: scan_page_def r(1,2,3) record_transaction_db [OF r(5)] r(4)
             dest!: get_staf_data_db
             split: option.splits staf_result.splits prod.splits)
qed

subsection \<open>The scenario, evaluated\<close>

lemma run_snoc: "run (es @ [e]) w = exec e (run es w)"
  by (simp add: run_def)

lemma contoh_run:
  "run contoh_awal mulai
   = \<lparr>db = \<lparr>tbl_staf = [administrator, budi 1], tbl_transaksi = [],
            tbl_departemen = [''ADMIN''],
            tbl_menu_harian = [''2026-11-04'' \<mapsto> nasi_goreng]\<rparr>,
      cache = empty_cache, conn_ok = True, clock = 0, today = ''2026-11-04'',
      jam = ''12:00:00''\<rparr>"
  by (simp add: run_def boot_def setup_database_def empty_database_def tambah_staf_def
        simpan_menu_def save_menu_today_def get_db_connection_def clear_all_caches_def
        ADMIN_BARCODE_ID_def ADMIN_DEPARTEMEN_NAME_def)

lemma contoh_run_scan:
  "db (run contoh_habis mulai)
   = \<lparr>tbl_staf = [administrator, budi 0],
      tbl_transaksi = [transaksi_contoh 1 ''1001'' ''Budi'' ''SUKSES''],
      tbl_departemen = [''ADMIN''],
      tbl_menu_harian = [''2026-11-04'' \<mapsto> nasi_goreng]\<rparr>"
  "today (run contoh_habis mulai) = ''2026-11-04''"
  "jam (run contoh_habis mulai) = ''12:00:00''"
  using run_snoc [of contoh_awal "Scan True ''1001''" mulai]
  by (simp_all add: contoh_run scan_page_def get_menu_today_def get_staf_data_def cache_hit_def
        empty_cache_def get_db_connection_def query_menu_def query_staf_def Let_def
        record_transaction_def kurangi_jatah_def next_id_def clear_all_caches_def
        ADMIN_BARCODE_ID_def)


lemma contoh_run_hapus:
  "db (run contoh_hapus mulai)
   = \<lparr>tbl_staf = [administrator, budi 0],
      tbl_transaksi = [transaksi_contoh 1 ''77'' ''N/A'' ''GAGAL'',
                       transaksi_contoh 2 ''2002'' ''Siti'' ''SUKSES'',
                       transaksi_contoh 3 ''1001'' ''Budi'' ''SUKSES''],
      tbl_departemen = [''ADMIN''],
      tbl_menu_harian = [''2026-11-04'' \<mapsto> nasi_goreng]\<rparr>"
  by (simp add: run_def boot_def setup_database_def empty_database_def tambah_staf_def
        simpan_menu_def save_menu_today_def get_db_connection_def clear_all_caches_def
        ADMIN_BARCODE_ID_def ADMIN_DEPARTEMEN_NAME_def
        scan_page_def get_menu_today_def get_staf_data_def cache_hit_def
        empty_cache_def query_menu_def query_staf_def Let_def
        record_transaction_def kurangi_jatah_def next_id_def hapus_staf_def)

subsection \<open>A successful redemption\<close>

text \<open>
  Claim C1. In every state the process can reach, for every staff record with
  \<^verbatim>\<open>jatah_tersisa > 0\<close> whose barcode is not the admin barcode, when the menu of today is
  configured, a scan of that barcode shows the success screen, appends exactly one
  transaction with status SUKSES that carries the name and the price of today's menu,
  lowers the remaining quota of that record by one and leaves every other row and table
  as it was; the record shown afterwards is the record after the decrement.
\<close>

theorem scan_success:
  assumes "list_all ui_ok es" and "w = run es (boot hari pukul)"
    and "s \<in> set (tbl_staf (db w))" and "0 < jatah_tersisa s"
    and "barcode_id s \<noteq> ADMIN_BARCODE_ID"
    and "tbl_menu_harian (db w) (today w) = Some m"
  shows "fst (scan_page True (barcode_id s) w) = Sukses (s\<lparr>jatah_tersisa := jatah_tersisa s - 1\<rparr>)
       \<and> tbl_transaksi (db (snd (scan_page True (barcode_id s) w)))
           = tbl_transaksi (db w) @
             [\<lparr>t_id = next_id (tbl_transaksi (db w)), t_barcode_id = barcode_id s,
               tanggal = today w, waktu = jam w, menu = m_menu m, harga = m_harga m,
               staff_nama = nama s, status_scan = ''SUKSES''\<rparr>]
       \<and> tbl_staf (db (snd (scan_page True (barcode_id s) w)))
           = map (\<lambda>x. if x = s then s\<lparr>jatah_tersisa := jatah_tersisa s - 1\<rparr> else x) (tbl_staf (db w))
       \<and> tbl_departemen (db (snd (scan_page True (barcode_id s) w))) = tbl_departemen (db w)
       \<and> tbl_menu_harian (db (snd (scan_page True (barcode_id s) w))) = tbl_menu_harian (db w)"
proof -
  let ?b = "barcode_id s"
  have cons: "consistent w"
    using assms(1,2) by (simp add: reachable_consistent)
  then have ok: "staf_ok (tbl_staf (db w))"
    by (simp add: consistent_def schema_ok_def)
  then have dist: "distinct (map barcode_id (tbl_staf (db w)))" and ne: "?b \<noteq> []"
    using assms(3) by (auto simp: staf_ok_def list_all_iff)
  obtain w1 w2 where r:
    "get_menu_today (today w) w = (tbl_menu_harian (db w) (today w), w1)"
    "get_staf_data (Some ?b) w1 = (query_staf (db w) (Some ?b), w2)"
    "db w1 = db w" "db w2 = db w" "conn_ok w2" "today w2 = today w" "jam w2 = jam w"
    using cons by (auto simp: consistent_def intro: scan_reads [of w])
  have q: "query_staf (db w) (Some ?b) = Staf_dict s"
    using find_distinct_key [OF dist assms(3)] ne by (simp add: query_staf_def)
  define w3 where "w3 = snd (record_transaction ?b (nama s) (m_menu m) (m_harga m) ''SUKSES'' w2)"
  have d3: "db w3 = (db w)\<lparr>tbl_transaksi := tbl_transaksi (db w) @
                 [\<lparr>t_id = next_id (tbl_transaksi (db w)), t_barcode_id = ?b, tanggal = today w,
                   waktu = jam w, menu = m_menu m, harga = m_harga m, staff_nama = nama s,
                   status_scan = ''SUKSES''\<rparr>],
               tbl_staf := map (kurangi_jatah ?b) (tbl_staf (db w))\<rparr>"
    using r(5) by (simp add: w3_def record_transaction_db r(4,6,7))
  have c3: "cache w3 = empty_cache" "conn_ok w3"
    using record_transaction_cleared [OF r(5)] by (simp_all add: w3_def)
  have q3: "query_staf (db w3) (Some ?b) = Staf_dict (s\<lparr>jatah_tersisa := jatah_tersisa s - 1\<rparr>)"
    using find_distinct_key [OF dist assms(3)] ne assms(4)
    by (simp add: query_staf_def d3 find_kurangi_jatah kurangi_jatah_def)
  have sp: "scan_page True ?b w
      = (Sukses (s\<lparr>jatah_tersisa := jatah_tersisa s - 1\<rparr>),
         w3\<lparr>cache := empty_cache\<lparr>c_staf := [Some ?b \<mapsto> (clock w3, query_staf (db w3) (Some ?b))]\<rparr>\<rparr>)"
    using assms(4,5,6) ne
    by (simp add: scan_page_def r(1,2) q w3_def [symmetric] get_staf_data_fresh [OF c3] q3)
  show ?thesis
    by (simp add: sp d3 map_kurangi_jatah_distinct [OF dist assms(3,4)])
qed

theorem scan_success_witness:
  "list_all ui_ok contoh_awal
   \<and> budi 1 \<in> set (tbl_staf (db (run contoh_awal mulai)))
   \<and> 0 < jatah_tersisa (budi 1)
   \<and> barcode_id (budi 1) \<noteq> ADMIN_BARCODE_ID
   \<and> tbl_menu_harian (db (run contoh_awal mulai)) (today (run contoh_awal mulai)) = Some nasi_goreng
   \<and> fst (scan_page True ''1001'' (run contoh_awal mulai)) = Sukses (budi 0)
   \<and> tbl_transaksi (db (snd (scan_page True ''1001'' (run contoh_awal mulai))))
       = [transaksi_contoh 1 ''1001'' ''Budi'' ''SUKSES'']
   \<and> tbl_staf (db (snd (scan_page True ''1001'' (run contoh_awal mulai))))
       = [administrator, budi 0]"
  using scan_success
    [of contoh_awal _ "''2026-11-04''" "''12:00:00''" "budi 1" nasi_goreng, OF _ refl]
  by (simp add: contoh_run ADMIN_BARCODE_ID_def next_id_def)

subsection \<open>Refused scans\<close>

text \<open>
  Claim C4, as amended. In every reachable state, for every non-empty barcode that no staff
  record has, when the menu of today is configured, a scan appends exactly one
  transaction with status GAGAL whose \<^verbatim>\<open>staff_nama\<close> is "N/A" and whose menu and price are
  those of today's menu; the staff table and every other table stay as they were.
\<close>

theorem scan_unregistered:
  assumes "list_all ui_ok es" and "w = run es (boot hari pukul)"
    and "b \<noteq> []" and "b \<notin> set (map barcode_id (tbl_staf (db w)))"
    and "tbl_menu_harian (db w) (today w) = Some m"
  shows "fst (scan_page True b w) = Gagal_tidak_terdaftar
       \<and> db (snd (scan_page True b w))
           = (db w)\<lparr>tbl_transaksi := tbl_transaksi (db w) @
               [\<lparr>t_id = next_id (tbl_transaksi (db w)), t_barcode_id = b,
                 tanggal = today w, waktu = jam w, menu = m_menu m, harga = m_harga m,
                 staff_nama = ''N/A'', status_scan = ''GAGAL''\<rparr>]\<rparr>"
proof -
  have cons: "consistent w"
    using assms(1,2) by (simp add: reachable_consistent)
  obtain w1 w2 where r:
    "get_menu_today (today w) w = (tbl_menu_harian (db w) (today w), w1)"
    "get_staf_data (Some b) w1 = (query_staf (db w) (Some b), w2)"
    "db w1 = db w" "db w2 = db w" "conn_ok w2" "today w2 = today w" "jam w2 = jam w"
    using cons by (auto simp: consistent_def intro: scan_reads [of w])
  have q: "query_staf (db w) (Some b) = Staf_None"
    using find_none_key [OF assms(4)] assms(3) by (simp add: query_staf_def)
  show ?thesis
    using assms(3,5)
    by (simp add: scan_page_def r(1,2) q record_transaction_gagal_db [OF r(5)] r(4,6,7))
qed

theorem scan_unregistered_witness:
  "list_all ui_ok contoh_awal
   \<and> ''77'' \<noteq> []
   \<and> ''77'' \<notin> set (map barcode_id (tbl_staf (db (run contoh_awal mulai))))
   \<and> tbl_menu_harian (db (run contoh_awal mulai)) (today (run contoh_awal mulai)) = Some nasi_goreng
   \<and> fst (scan_page True ''77'' (run contoh_awal mulai)) = Gagal_tidak_terdaftar
   \<and> tbl_transaksi (db (snd (scan_page True ''77'' (run contoh_awal mulai))))
       = [transaksi_contoh 1 ''77'' ''N/A'' ''GAGAL'']
   \<and> tbl_staf (db (snd (scan_page True ''77'' (run contoh_awal mulai))))
       = [administrator, budi 1]"
  using scan_unregistered
    [of contoh_awal _ "''2026-11-04''" "''12:00:00''" "''77''" nasi_goreng, OF _ refl]
  by (simp add: contoh_run next_id_def)

text \<open>
  The claim as stated, for every barcode string, fails at the empty string: line 689
  (\<^verbatim>\<open>if submitted and barcode_input:\<close>) processes no scan for it, and no transaction is
  written although no staff record has the empty barcode and the menu is configured.
\<close>

theorem scan_empty_input_counterexample:
  "[] \<notin> set (map barcode_id (tbl_staf (db (run contoh_awal mulai))))
   \<and> tbl_menu_harian (db (run contoh_awal mulai)) (today (run contoh_awal mulai)) = Some nasi_goreng
   \<and> tbl_transaksi (db (run contoh_awal mulai)) = []
   \<and> fst (scan_page True [] (run contoh_awal mulai)) = Menunggu
   \<and> tbl_transaksi (db (snd (scan_page True [] (run contoh_awal mulai)))) = []"
  by (simp add: contoh_run scan_page_def get_menu_today_def cache_hit_def empty_cache_def
        get_db_connection_def query_menu_def Let_def)

text \<open>
  Claim C5. In every reachable state, for every staff record with
  \<^verbatim>\<open>jatah_tersisa = 0\<close>, when the menu of today is configured, a scan of its barcode
  appends exactly one transaction with status GAGAL and changes nothing else of the store:
  the staff table, and with it the remaining quota, is as before.
\<close>

theorem scan_quota_exhausted:
  assumes "list_all ui_ok es" and "w = run es (boot hari pukul)"
    and "s \<in> set (tbl_staf (db w))" and "jatah_tersisa s = 0"
    and "tbl_menu_harian (db w) (today w) = Some m"
  shows "fst (scan_page True (barcode_id s) w)
           = (if barcode_id s = ADMIN_BARCODE_ID then Gagal_admin else Gagal_jatah_habis (nama s))
       \<and> db (snd (scan_page True (barcode_id s) w))
           = (db w)\<lparr>tbl_transaksi := tbl_transaksi (db w) @
               [\<lparr>t_id = next_id (tbl_transaksi (db w)), t_barcode_id = barcode_id s,
                 tanggal = today w, waktu = jam w, menu = m_menu m, harga = m_harga m,
                 staff_nama = nama s, status_scan = ''GAGAL''\<rparr>]\<rparr>"
proof -
  let ?b = "barcode_id s"
  have cons: "consistent w"
    using assms(1,2) by (simp add: reachable_consistent)
  then have ok: "staf_ok (tbl_staf (db w))"
    by (simp add: consistent_def schema_ok_def)
  then have dist: "distinct (map barcode_id (tbl_staf (db w)))" and ne: "?b \<noteq> []"
    using assms(3) by (auto simp: staf_ok_def list_all_iff)
  obtain w1 w2 where r:
    "get_menu_today (today w) w = (tbl_menu_harian (db w) (today w), w1)"
    "get_staf_data (Some ?b) w1 = (query_staf (db w) (Some ?b), w2)"
    "db w1 = db w" "db w2 = db w" "conn_ok w2" "today w2 = today w" "jam w2 = jam w"
    using cons by (auto simp: consistent_def intro: scan_reads [of w])
  have q: "query_staf (db w) (Some ?b) = Staf_dict s"
    using find_distinct_key [OF dist assms(3)] ne by (simp add: query_staf_def)
  show ?thesis
    using assms(4,5) ne
    by (simp add: scan_page_def r(1,2) q record_transaction_gagal_db [OF r(5)] r(4,6,7))
qed

theorem scan_quota_exhausted_witness:
  "list_all ui_ok contoh_habis
   \<and> budi 0 \<in> set (tbl_staf (db (run contoh_habis mulai)))
   \<and> jatah_tersisa (budi 0) = 0
   \<and> tbl_menu_harian (db (run contoh_habis mulai)) (today (run contoh_habis mulai)) = Some nasi_goreng
   \<and> fst (scan_page True ''1001'' (run contoh_habis mulai)) = Gagal_jatah_habis ''Budi''
   \<and> tbl_transaksi (db (snd (scan_page True ''1001'' (run contoh_habis mulai))))
       = [transaksi_contoh 1 ''1001'' ''Budi'' ''SUKSES'',
          transaksi_contoh 2 ''1001'' ''Budi'' ''GAGAL'']
   \<and> tbl_staf (db (snd (scan_page True ''1001'' (run contoh_habis mulai))))
       = [administrator, budi 0]"
  using scan_quota_exhausted
    [of contoh_habis _ "''2026-11-04''" "''12:00:00''" "budi 0" nasi_goreng, OF _ refl]
  by (simp add: contoh_run_scan ADMIN_BARCODE_ID_def next_id_def)

text \<open>
  Claim C6. For every store, read through a coherent cache on an open connection, a scan of
  the admin barcode with a configured menu appends exactly one transaction with status
  GAGAL and changes no staff row, whatever the remaining quota of the admin record is (and
  also when the store holds no admin record: then the barcode counts as unregistered).
\<close>

theorem scan_admin:
  assumes "conn_ok w" and "coherent w" and "tbl_menu_harian (db w) (today w) = Some m"
  shows "fst (scan_page True ADMIN_BARCODE_ID w)
           = (case find (\<lambda>s. barcode_id s = ADMIN_BARCODE_ID) (tbl_staf (db w)) of
                Some s \<Rightarrow> Gagal_admin | None \<Rightarrow> Gagal_tidak_terdaftar)
       \<and> db (snd (scan_page True ADMIN_BARCODE_ID w))
           = (db w)\<lparr>tbl_transaksi := tbl_transaksi (db w) @
               [\<lparr>t_id = next_id (tbl_transaksi (db w)), t_barcode_id = ADMIN_BARCODE_ID,
                 tanggal = today w, waktu = jam w, menu = m_menu m, harga = m_harga m,
                 staff_nama = (case find (\<lambda>s. barcode_id s = ADMIN_BARCODE_ID) (tbl_staf (db w)) of
                                 Some s \<Rightarrow> nama s | None \<Rightarrow> ''N/A''),
                 status_scan = ''GAGAL''\<rparr>]\<rparr>"
proof -
  let ?b = ADMIN_BARCODE_ID
  have ne: "?b \<noteq> []"
    by (simp add: ADMIN_BARCODE_ID_def)
  obtain w1 w2 where r:
    "get_menu_today (today w) w = (tbl_menu_harian (db w) (today w), w1)"
    "get_staf_data (Some ?b) w1 = (query_staf (db w) (Some ?b), w2)"
    "db w1 = db w" "db w2 = db w" "conn_ok w2" "today w2 = today w" "jam w2 = jam w"
    using assms(1,2) by (auto intro: scan_reads [of w])
  show ?thesis
  proof (cases "find (\<lambda>s. barcode_id s = ?b) (tbl_staf (db w))")
    case None
    then have q: "query_staf (db w) (Some ?b) = Staf_None"
      using ne by (simp add: query_staf_def)
    show ?thesis
      using assms(3) ne None
      by (simp add: scan_page_def r(1,2) q record_transaction_gagal_db [OF r(5)] r(4,6,7))
  next
    case (Some s)
    then have q: "query_staf (db w) (Some ?b) = Staf_dict s"
      using ne by (simp add: query_staf_def)
    have "barcode_id s = ?b"
      using Some by (rule find_key_barcode)
    then show ?thesis
      using assms(3) ne Some
      by (simp add: scan_page_def r(1,2) q record_transaction_gagal_db [OF r(5)] r(4,6,7))
  qed
qed

theorem scan_admin_witness:
  "conn_ok (run contoh_awal mulai)
   \<and> coherent (run contoh_awal mulai)
   \<and> tbl_menu_harian (db (run contoh_awal mulai)) (today (run contoh_awal mulai)) = Some nasi_goreng
   \<and> fst (scan_page True ''9999'' (run contoh_awal mulai)) = Gagal_admin
   \<and> tbl_transaksi (db (snd (scan_page True ''9999'' (run contoh_awal mulai))))
       = [transaksi_contoh 1 ''9999'' ''Administrator'' ''GAGAL'']
   \<and> tbl_staf (db (snd (scan_page True ''9999'' (run contoh_awal mulai))))
       = [administrator, budi 1]"
  using scan_admin [of "run contoh_awal mulai" nasi_goreng]
  by (simp add: contoh_run coherent_empty next_id_def ADMIN_BARCODE_ID_def)

text \<open>
  Claim C7. In every reachable state, for every input of the scan form, if no menu is
  configured for today the page stops at the warning: the store is unchanged, so no
  transaction is written and no staff row is modified.
\<close>

theorem scan_no_menu:
  assumes "list_all ui_ok es" and "w = run es (boot hari pukul)"
    and "tbl_menu_harian (db w) (today w) = None"
  shows "fst (scan_page submitted barcode_input w) = Ditangguhkan
       \<and> db (snd (scan_page submitted barcode_input w)) = db w"
proof -
  have cons: "consistent w"
    using assms(1,2) by (simp add: reachable_consistent)
  then have c: "conn_ok w" "coherent w"
    by (simp_all add: consistent_def)
  obtain mt w1 where g: "get_menu_today (today w) w = (mt, w1)"
    by (cases "get_menu_today (today w) w")
  have "mt = None"
    using get_menu_today_coherent(1) [OF c, of "today w"] assms(3) g by (simp add: query_menu_def)
  moreover have "db w1 = db w"
    using get_menu_today_frame(1) [of "today w" w] g by simp
  ultimately show ?thesis
    by (simp add: scan_page_def g)
qed

theorem scan_no_menu_witness:
  "list_all ui_ok [Tambah_staf ''1001'' ''Budi'' (Some ''Produksi'') 1]
   \<and> tbl_menu_harian (db (run [Tambah_staf ''1001'' ''Budi'' (Some ''Produksi'') 1] mulai))
        (today (run [Tambah_staf ''1001'' ''Budi'' (Some ''Produksi'') 1] mulai)) = None
   \<and> fst (scan_page True ''1001'' (run [Tambah_staf ''1001'' ''Budi'' (Some ''Produksi'') 1] mulai))
       = Ditangguhkan
   \<and> tbl_transaksi (db (snd (scan_page True ''1001''
        (run [Tambah_staf ''1001'' ''Budi'' (Some ''Produksi'') 1] mulai)))) = []
   \<and> tbl_staf (db (snd (scan_page True ''1001''
        (run [Tambah_staf ''1001'' ''Budi'' (Some ''Produksi'') 1] mulai))))
       = [administrator, budi 1]"
proof -
  have w: "run [Tambah_staf ''1001'' ''Budi'' (Some ''Produksi'') 1] mulai
     = \<lparr>db = \<lparr>tbl_staf = [administrator, budi 1], tbl_transaksi = [],
              tbl_departemen = [''ADMIN''], tbl_menu_harian = Map.empty\<rparr>,
        cache = empty_cache, conn_ok = True, clock = 0, today = ''2026-11-04'',
        jam = ''12:00:00''\<rparr>"
    by (simp add: run_def boot_def setup_database_def empty_database_def tambah_staf_def
          get_db_connection_def clear_all_caches_def ADMIN_BARCODE_ID_def ADMIN_DEPARTEMEN_NAME_def)
  show ?thesis
    using scan_no_menu
      [of "[Tambah_staf ''1001'' ''Budi'' (Some ''Produksi'') 1]" _ "''2026-11-04''" "''12:00:00''"
          True "''1001''", OF _ refl]
    by (simp add: w)
qed

section \<open>Writers and the cache\<close>














section \<open>Quotas\<close>

lemma kurangi_jatah_cases:
  "kurangi_jatah b s = s \<or> (0 < jatah_tersisa s \<and> kurangi_jatah b s = s\<lparr>jatah_tersisa := jatah_tersisa s - 1\<rparr>)"
  by (simp add: kurangi_jatah_def)

text \<open>
  Claim C2. After every sequence of events (scans, resets, staff added, edited and
  deleted, imports, menu and department changes, reads, time passing) from the start of
  the process, no staff row has a negative \<^verbatim>\<open>jatah_tersisa\<close>; and \<^verbatim>\<open>record_transaction\<close>, in
  any state, leaves each staff row as it was or lowers by one the remaining quota of a row
  whose remaining quota was strictly positive.
\<close>

theorem quota_never_negative:
  assumes "list_all ui_ok es"
  shows "list_all (\<lambda>s. 0 \<le> jatah_tersisa s) (tbl_staf (db (run es (boot hari pukul))))
       \<and> list_all2 (\<lambda>s s'. s' = s \<or> (0 < jatah_tersisa s \<and> s' = s\<lparr>jatah_tersisa := jatah_tersisa s - 1\<rparr>))
           (tbl_staf (db w)) (tbl_staf (db (snd (record_transaction b nm mn hg st w))))"
proof
  have "consistent (run es (boot hari pukul))"
    using assms by (rule reachable_consistent)
  then show "list_all (\<lambda>s. 0 \<le> jatah_tersisa s) (tbl_staf (db (run es (boot hari pukul))))"
    by (simp add: consistent_def schema_ok_def staf_ok_def list_all_iff)
  show "list_all2 (\<lambda>s s'. s' = s \<or> (0 < jatah_tersisa s \<and> s' = s\<lparr>jatah_tersisa := jatah_tersisa s - 1\<rparr>))
           (tbl_staf (db w)) (tbl_staf (db (snd (record_transaction b nm mn hg st w))))"
    using kurangi_jatah_cases [of b]
    by (auto simp: record_transaction_def get_db_connection_def Let_def list_all2_conv_all_nth)
qed

theorem quota_never_negative_witness:
  "list_all ui_ok contoh_habis
   \<and> list_all (\<lambda>s. 0 \<le> jatah_tersisa s) (tbl_staf (db (run contoh_habis mulai)))
   \<and> tbl_staf (db (run contoh_habis mulai)) = [administrator, budi 0]
   \<and> tbl_staf (db (snd (record_transaction ''1001'' ''Budi'' ''Nasi Goreng'' 15000 ''SUKSES''
                          (run contoh_habis mulai)))) = [administrator, budi 0]"
proof -
  let ?w = "run contoh_habis mulai"
  have "consistent ?w"
    by (rule reachable_consistent) simp
  then have "conn_ok ?w"
    by (simp add: consistent_def)
  then have "tbl_staf (db (snd (record_transaction ''1001'' ''Budi'' ''Nasi Goreng'' 15000 ''SUKSES'' ?w)))
      = [administrator, budi 0]"
    by (simp add: record_transaction_db contoh_run_scan kurangi_jatah_def)
  then show ?thesis
    using quota_never_negative
      [of contoh_habis "''2026-11-04''" "''12:00:00''" ?w "''1001''" "''Budi''"
          "''Nasi Goreng''" 15000 "''SUKSES''"]
    by (simp add: contoh_run_scan)
qed

subsection \<open>The admin record keeps its full quota\<close>

lemma admin_penuh_kurangi:
  "b \<noteq> ADMIN_BARCODE_ID \<Longrightarrow> admin_penuh ss \<Longrightarrow> admin_penuh (map (kurangi_jatah b) ss)"
  by (auto simp: admin_penuh_def list_all_iff kurangi_jatah_def)

lemma import_row_admin_penuh:
  "admin_penuh (tbl_staf (fst acc)) \<Longrightarrow> admin_penuh (tbl_staf (fst (import_row r acc)))"
  by (cases acc)
     (auto simp: import_row_def Let_def admin_penuh_def list_all_iff insert_or_replace_staf_def
           split: sum.splits py_error.splits)

lemma fold_import_row_admin_penuh:
  "admin_penuh (tbl_staf (fst acc)) \<Longrightarrow> admin_penuh (tbl_staf (fst (fold import_row rs acc)))"
  by (induction rs arbitrary: acc) (simp_all add: import_row_admin_penuh)

lemma exec_admin_penuh:
  assumes "consistent w" "admin_penuh (tbl_staf (db w))"
  shows "admin_penuh (tbl_staf (db (exec e w)))"
proof (cases e)
  case (Scan sub b)
  then show ?thesis
    using scan_page_staf [of w sub b] assms
    by (auto simp: consistent_def intro: admin_penuh_kurangi)
next
  case (Edit_staf b nm dp j)
  obtain r w1 where g: "get_staf_data (Some b) w = (r, w1)"
    by (cases "get_staf_data (Some b) w")
  have "db w1 = db w"
    using get_staf_data_frame(1) [of "Some b" w] g by simp
  then show ?thesis
    using assms(2)
    by (auto simp: Edit_staf edit_staf_def g get_db_connection_def admin_penuh_def list_all_iff
             split: option.splits staf_result.splits)
next
  case (Hapus_staf b)
  obtain r w1 where g: "get_staf_data (Some b) w = (r, w1)"
    by (cases "get_staf_data (Some b) w")
  have "db w1 = db w"
    using get_staf_data_frame(1) [of "Some b" w] g by simp
  then show ?thesis
    using assms(2)
    by (auto simp: Hapus_staf hapus_staf_def g get_db_connection_def admin_penuh_def list_all_iff
             split: option.splits staf_result.splits)
next
  case (Import_csv df)
  then show ?thesis
    using fold_import_row_admin_penuh [of "(db w, 0, 0)" "rows df"] assms(2)
    by (auto simp: import_staf_from_csv_def get_db_connection_def split: prod.splits)
qed (use assms(2) in \<open>auto simp: reset_jatah_harian_def tambah_staf_def simpan_menu_def
       save_menu_today_def tambah_departemen_def get_db_connection_def
       get_transactions_by_date_frame get_staf_data_frame get_departemen_data_frame
       get_menu_today_frame admin_penuh_def list_all_iff split: option.splits\<close>)

lemma run_admin_penuh:
  "list_all ui_ok es \<Longrightarrow> consistent w \<Longrightarrow> admin_penuh (tbl_staf (db w)) \<Longrightarrow>
   admin_penuh (tbl_staf (db (run es w)))"
  unfolding run_def
  by (induction es arbitrary: w) (simp_all add: exec_consistent exec_admin_penuh)

lemma reachable_admin_penuh:
  "list_all ui_ok es \<Longrightarrow> admin_penuh (tbl_staf (db (run es (boot hari pukul))))"
  by (rule run_admin_penuh)
     (simp_all add: boot_consistent, simp add: boot_def setup_database_def empty_database_def
        admin_penuh_def)

text \<open>
  Claim C8. With an open connection the reset returns True, every staff row becomes the same
  row with \<^verbatim>\<open>jatah_tersisa = jatah_harian\<close>, the table keeps its rows in place, and the
  other three tables are unchanged. Without a connection it returns False and nothing at
  all has changed; there is no third outcome. The statement has no WHERE clause, so it
  also assigns to the admin row; in every reachable state that row already has its full
  quota, and the reset leaves it as it is.
\<close>

theorem reset_sets_remaining_to_daily:
  "(conn_ok w \<longrightarrow>
      fst (reset_jatah_harian w)
    \<and> list_all2 (\<lambda>s s'. s' = s\<lparr>jatah_tersisa := jatah_harian s\<rparr>)
        (tbl_staf (db w)) (tbl_staf (db (snd (reset_jatah_harian w))))
    \<and> tbl_transaksi (db (snd (reset_jatah_harian w))) = tbl_transaksi (db w)
    \<and> tbl_departemen (db (snd (reset_jatah_harian w))) = tbl_departemen (db w)
    \<and> tbl_menu_harian (db (snd (reset_jatah_harian w))) = tbl_menu_harian (db w))
   \<and> (\<not> conn_ok w \<longrightarrow> \<not> fst (reset_jatah_harian w) \<and> snd (reset_jatah_harian w) = w)
   \<and> (list_all ui_ok es \<longrightarrow>
        list_all2 (\<lambda>s s'. barcode_id s = ADMIN_BARCODE_ID \<longrightarrow> s' = s)
          (tbl_staf (db (run es (boot hari pukul))))
          (tbl_staf (db (snd (reset_jatah_harian (run es (boot hari pukul)))))))"
proof (intro conjI impI)
  assume "list_all ui_ok es"
  then have "admin_penuh (tbl_staf (db (run es (boot hari pukul))))"
    by (rule reachable_admin_penuh)
  then show "list_all2 (\<lambda>s s'. barcode_id s = ADMIN_BARCODE_ID \<longrightarrow> s' = s)
          (tbl_staf (db (run es (boot hari pukul))))
          (tbl_staf (db (snd (reset_jatah_harian (run es (boot hari pukul))))))"
    by (auto simp: reset_jatah_harian_def get_db_connection_def list_all2_conv_all_nth
                   admin_penuh_def list_all_iff)
qed (simp_all add: reset_jatah_harian_def get_db_connection_def list_all2_conv_all_nth)

theorem reset_sets_remaining_to_daily_witness:
  "conn_ok (run contoh_habis mulai)
   \<and> list_all ui_ok contoh_habis
   \<and> tbl_staf (db (run contoh_habis mulai)) = [administrator, budi 0]
   \<and> fst (reset_jatah_harian (run contoh_habis mulai))
   \<and> tbl_staf (db (snd (reset_jatah_harian (run contoh_habis mulai)))) = [administrator, budi 1]
   \<and> \<not> fst (reset_jatah_harian ((run contoh_habis mulai)\<lparr>conn_ok := False\<rparr>))
   \<and> snd (reset_jatah_harian ((run contoh_habis mulai)\<lparr>conn_ok := False\<rparr>))
       = (run contoh_habis mulai)\<lparr>conn_ok := False\<rparr>"
proof -
  let ?w = "run contoh_habis mulai"
  have "consistent ?w"
    by (rule reachable_consistent) simp
  then have c: "conn_ok ?w"
    by (simp add: consistent_def)
  show ?thesis
    using reset_sets_remaining_to_daily [of ?w contoh_habis "''2026-11-04''" "''12:00:00''"]
          reset_sets_remaining_to_daily [of "?w\<lparr>conn_ok := False\<rparr>" "[]"] c
    by (simp add: contoh_run_scan list_all2_Cons1)
qed

section \<open>The transaction report\<close>

lemma transaksi_join_staf_barcode:
  "r \<in> set (transaksi_join_staf d) \<Longrightarrow> l_barcode_id r \<in> set (map barcode_id (tbl_staf d))"
  by (auto simp: transaksi_join_staf_def join_row_def intro: rev_image_eqI)

lemma query_transactions_subset:
  "set (query_transactions d k) \<subseteq> set (transaksi_join_staf d)"
  by (auto simp: query_transactions_def)

lemma query_transactions_barcode:
  "r \<in> set (query_transactions d k) \<Longrightarrow> l_barcode_id r \<in> set (map barcode_id (tbl_staf d))"
  using query_transactions_subset transaksi_join_staf_barcode by blast

lemma fold_import_row_transaksi:
  "tbl_transaksi (fst (fold import_row rs acc)) = tbl_transaksi (fst acc)"
proof (induction rs arbitrary: acc)
  case Nil
  show ?case by simp
next
  case (Cons r rs)
  have "tbl_transaksi (fst (import_row r acc)) = tbl_transaksi (fst acc)"
    by (cases acc) (auto simp: import_row_def Let_def split: sum.splits py_error.splits)
  then show ?case
    by (simp add: Cons.IH)
qed

lemma record_transaction_transaksi:
  "\<exists>ts. tbl_transaksi (db (snd (record_transaction b nm mn hg st w))) = tbl_transaksi (db w) @ ts"
  by (simp add: record_transaction_def get_db_connection_def Let_def)

lemma scan_page_transaksi:
  "\<exists>ts. tbl_transaksi (db (snd (scan_page sub b w))) = tbl_transaksi (db w) @ ts"
proof -
  obtain mt w1 where m: "get_menu_today (today w) w = (mt, w1)"
    by (cases "get_menu_today (today w) w")
  have d1: "db w1 = db w"
    using get_menu_today_frame(1) [of "today w" w] m by simp
  obtain r w2 where g: "get_staf_data (Some b) w1 = (r, w2)"
    by (cases "get_staf_data (Some b) w1")
  have d2: "db w2 = db w"
    using get_staf_data_frame(1) [of "Some b" w1] g d1 by simp
  have rec: "\<exists>ts. tbl_transaksi (db (snd (record_transaction b nm mn hg st w2))) = tbl_transaksi (db w) @ ts"
    for nm mn hg st
    using record_transaction_transaksi [of b nm mn hg st w2] d2 by simp
  have after: "\<exists>ts. tbl_transaksi (db w3) = tbl_transaksi (db w) @ ts"
    if "get_staf_data (Some b) (snd (record_transaction b nm mn hg st w2)) = (x, w3)"
    for nm mn hg st x w3
    using get_staf_data_frame(1) [of "Some b" "snd (record_transaction b nm mn hg st w2)"] that rec [of nm mn hg st]
    by simp
  show ?thesis
    using m g d1 d2 rec after
    by (auto simp: scan_page_def split: option.splits staf_result.splits prod.splits)
qed

lemma exec_transaksi:
  "\<exists>ts. tbl_transaksi (db (exec e w)) = tbl_transaksi (db w) @ ts"
proof (cases e)
  case (Scan sub b)
  then show ?thesis by (simp add: scan_page_transaksi)
next
  case (Edit_staf b nm dp j)
  obtain r w1 where g: "get_staf_data (Some b) w = (r, w1)"
    by (cases "get_staf_data (Some b) w")
  have "db w1 = db w"
    using get_staf_data_frame(1) [of "Some b" w] g by simp
  then show ?thesis
    by (auto simp: Edit_staf edit_staf_def g get_db_connection_def
             split: option.splits staf_result.splits)
next
  case (Hapus_staf b)
  obtain r w1 where g: "get_staf_data (Some b) w = (r, w1)"
    by (cases "get_staf_data (Some b) w")
  have "db w1 = db w"
    using get_staf_data_frame(1) [of "Some b" w] g by simp
  then show ?thesis
    by (auto simp: Hapus_staf hapus_staf_def g get_db_connection_def
             split: option.splits staf_result.splits)
next
  case (Import_csv df)
  then show ?thesis
    using fold_import_row_transaksi [of "rows df" "(db w, 0, 0)"]
    by (auto simp: import_staf_from_csv_def get_db_connection_def split: prod.splits)
qed (auto simp: reset_jatah_harian_def tambah_staf_def simpan_menu_def save_menu_today_def
       tambah_departemen_def get_db_connection_def get_transactions_by_date_frame
       get_staf_data_frame get_departemen_data_frame get_menu_today_frame split: option.splits)

text \<open>
  Claim C10. Every row that the report query returns carries the barcode of a row that the
  staff table holds now; so for a transaction whose barcode no staff row holds (a scan of
  an unregistered barcode, or of a staff record deleted since) the report has no row with
  that barcode. The same holds of what the cached function
  \<^verbatim>\<open>get_transactions_by_date\<close> hands to the report page and its CSV export, whenever
  the cache is coherent. No event removes or alters a row of the transaction table: the
  table after an event starts with the table before it.
\<close>

theorem laporan_only_current_staf:
  "list_all (\<lambda>r. l_barcode_id r \<in> set (map barcode_id (tbl_staf d))) (query_transactions d k)
   \<and> (t_barcode_id t \<notin> set (map barcode_id (tbl_staf d)) \<longrightarrow>
        list_all (\<lambda>r. l_barcode_id r \<noteq> t_barcode_id t) (query_transactions d k))
   \<and> take (length (tbl_transaksi (db w))) (tbl_transaksi (db (exec e w))) = tbl_transaksi (db w)
   \<and> (coherent w \<longrightarrow>
        list_all (\<lambda>r. l_barcode_id r \<in> set (map barcode_id (tbl_staf (db w))))
          (fst (get_transactions_by_date k w)))"
proof (intro conjI impI)
  show "list_all (\<lambda>r. l_barcode_id r \<in> set (map barcode_id (tbl_staf d))) (query_transactions d k)"
    using query_transactions_barcode by (auto simp: list_all_iff)
  show "list_all (\<lambda>r. l_barcode_id r \<noteq> t_barcode_id t) (query_transactions d k)"
    if "t_barcode_id t \<notin> set (map barcode_id (tbl_staf d))"
  proof -
    have "l_barcode_id r \<noteq> t_barcode_id t" if "r \<in> set (query_transactions d k)" for r
      using query_transactions_barcode [OF that] \<open>t_barcode_id t \<notin> set (map barcode_id (tbl_staf d))\<close>
      by auto
    then show ?thesis
      by (simp add: list_all_iff)
  qed
  show "take (length (tbl_transaksi (db w))) (tbl_transaksi (db (exec e w))) = tbl_transaksi (db w)"
    using exec_transaksi [of e w] by auto
  show "list_all (\<lambda>r. l_barcode_id r \<in> set (map barcode_id (tbl_staf (db w))))
          (fst (get_transactions_by_date k w))"
    if "coherent w"
  proof -
    have "fst (get_transactions_by_date k w) = query_transactions (db w) k
        \<or> fst (get_transactions_by_date k w) = []"
      using that
      by (auto simp: get_transactions_by_date_def Let_def get_db_connection_def coherent_def
               simp del: split_paired_All
               dest!: cache_hit_Some split: option.splits)
    then show ?thesis
      using query_transactions_barcode [of _ "db w" k] by (auto simp: list_all_iff)
  qed
qed

text \<open>A scan of the unregistered barcode 77, a scan by the staff record 2002 that is
  deleted afterwards, and a scan by the staff record 1001: all three transactions are in the
  table, the report of the day has the last one only.\<close>

theorem laporan_only_current_staf_witness:
  "''77'' \<notin> set (map barcode_id (tbl_staf (db (run contoh_hapus mulai))))
   \<and> ''2002'' \<notin> set (map barcode_id (tbl_staf (db (run contoh_hapus mulai))))
   \<and> tbl_transaksi (db (run contoh_hapus mulai))
       = [transaksi_contoh 1 ''77'' ''N/A'' ''GAGAL'',
          transaksi_contoh 2 ''2002'' ''Siti'' ''SUKSES'',
          transaksi_contoh 3 ''1001'' ''Budi'' ''SUKSES'']
   \<and> query_transactions (db (run contoh_hapus mulai)) hari_ini
       = [\<lparr>l_id = 3, l_tanggal = ''2026-11-04'', l_waktu = ''12:00:00'', l_barcode_id = ''1001'',
           l_staff_nama = ''Budi'', l_departemen = ''Produksi'', l_menu = ''Nasi Goreng'',
           l_harga = 15000, l_status_scan = ''SUKSES''\<rparr>]
   \<and> list_all (\<lambda>r. l_barcode_id r \<noteq> ''77'') (query_transactions (db (run contoh_hapus mulai)) hari_ini)
   \<and> coherent (run contoh_hapus mulai)
   \<and> fst (get_transactions_by_date hari_ini (run contoh_hapus mulai))
       = query_transactions (db (run contoh_hapus mulai)) hari_ini"
proof -
  let ?w = "run contoh_hapus mulai"
  have "consistent ?w"
    by (rule reachable_consistent) simp
  then have c: "conn_ok ?w" "coherent ?w"
    by (simp_all add: consistent_def)
  have "fst (get_transactions_by_date hari_ini ?w) = query_transactions (db ?w) hari_ini"
    by (rule get_transactions_by_date_coherent(1) [OF c])
  then show ?thesis
    using laporan_only_current_staf
      [of "db ?w" hari_ini "transaksi_contoh 1 ''77'' ''N/A'' ''GAGAL''" ?w] c(2)
    by (simp add: contoh_run_hapus query_transactions_def transaksi_join_staf_def join_row_def
          laporan_where_def between_def filter_on_def)
qed

section \<open>CSV import\<close>

text \<open>What the validation of lines 311-321 does: a row whose quota does not convert, or is
  not positive, or one of whose three texts is empty after \<^verbatim>\<open>str(...).strip()\<close>, adds one to
  the failure count and writes nothing.\<close>

lemma import_row_skips:
  assumes "py_int (cell_at r ''jatah_harian'') = Inl e
         \<or> (\<exists>j. py_int (cell_at r ''jatah_harian'') = Inr j \<and> j \<le> 0)
         \<or> strip (py_str (cell_at r ''barcode_id'')) = []
         \<or> strip (py_str (cell_at r ''nama'')) = []
         \<or> strip (py_str (cell_at r ''departemen'')) = []"
  shows "import_row r (d, success_count, fail_count) = (d, success_count, fail_count + 1)"
  using assms
  by (auto simp: import_row_def Let_def split: sum.splits py_error.splits)

text \<open>
  Claim C9 does not hold of the code. A blank field reaches \<^verbatim>\<open>import_staf_from_csv\<close> as
  NaN; \<^verbatim>\<open>str(NaN).strip()\<close> is the text "nan", which the test \<^verbatim>\<open>not nama\<close> of line 318 lets
  through: the row with an empty name is imported as a staff record named "nan" and
  counted as a success. A name of two spaces is refused.
\<close>

theorem import_blank_nama_accepted:
  "fst (import_staf_from_csv (csv_satu_baris CNaN) mulai) = (1, 0)
   \<and> tbl_staf (db (snd (import_staf_from_csv (csv_satu_baris CNaN) mulai)))
       = [administrator,
          \<lparr>barcode_id = ''1001'', nama = ''nan'', departemen = ''Produksi'',
           jatah_harian = 1, jatah_tersisa = 1\<rparr>]
   \<and> fst (import_staf_from_csv (csv_satu_baris (CStr ''  '')) mulai) = (0, 1)
   \<and> tbl_staf (db (snd (import_staf_from_csv (csv_satu_baris (CStr ''  '')) mulai)))
       = [administrator]"
  by (simp add: import_staf_from_csv_def get_db_connection_def boot_def required_cols_def
        import_row_def cell_at_def Let_def strip_def is_space_def show_int_def show_nat.simps
        digit_char_def sqlite_int_ok_def insert_or_replace_staf_def insert_or_ignore_dept_def
        setup_database_def empty_database_def ADMIN_BARCODE_ID_def ADMIN_DEPARTEMEN_NAME_def)

end
